theory Spec2Isabelle
  imports
    Complex_Main
    "HOL-Library.Char_ord"
    "HOL-Library.List_Lexorder"
    "HOL-Library.Product_Lexorder"
    "HOL-Library.Multiset"
begin

section \<open>The production scheduler of sop\_planner.py\<close>

text \<open>
  The engine of the program is \<open>calculate_schedule\<close> (lines 48 to 100) and the three
  metric lines that follow it (lines 113 to 121). Both read the two sidebar values
  \<open>line_speed\<close> and \<open>setup_time\<close>, which are Python integers; here they are the
  first two arguments of every function that reads them.

  Conventions of the embedding:
  \<^item> A Python \<open>str\<close> is the \<open>string\<close> of its UTF-8 bytes. UTF-8 is injective and
    keeps the order of code points, so equality and \<open><\<close> on the bytes are equality and
    \<open><\<close> on the Python strings.
  \<^item> A \<open>datetime\<close> is the number of microseconds since 0001-01-01 00:00:00, an
    \<open>int\<close>; a \<open>timedelta\<close> is a number of microseconds. Both have the ranges of
    the Python types, and leaving the range is the \<open>OverflowError\<close> Python raises.
  \<^item> The tonnage and width columns are rationals, and the quotient
    \<open>quantity / line_speed * 60\<close> is exact: the rounding of binary64 arithmetic is not
    part of the model. The rounding of \<open>timedelta\<close> to whole microseconds is.
  \<^item> The free-text column \<open>detail\<close> of a block (which formats a number) is not
    modelled; no function of the program reads it.
\<close>

subsection \<open>Errors\<close>

datatype error = ZeroDivisionError | OverflowError | KeyError

subsection \<open>Rows of the input table and blocks of the schedule\<close>

record row =
  order_id :: string
  customer :: string
  color :: string
  quantity :: rat
  width :: rat

record block =
  label :: string
  bcolor :: string
  bstart :: int
  bend :: int

text \<open>The label \<open>Changeover (\<dots>)\<close> of line 75; the two Hangul syllables between the
  parentheses are U+AD50 and U+CCB4, six bytes in UTF-8.\<close>

definition changeover_label :: string where
  "changeover_label =
     ''Changeover ('' @ [CHR 0xEA, CHR 0xB5, CHR 0x90, CHR 0xEC, CHR 0xB2, CHR 0xB4] @ '')''"

definition setup_loss :: string where
  "setup_loss = ''Setup (Loss)''"

definition production_label :: "row \<Rightarrow> string" where
  "production_label r = order_id r @ '' ('' @ color r @ '')''"

subsection \<open>Python arithmetic, datetime and timedelta\<close>

definition truediv :: "rat \<Rightarrow> rat \<Rightarrow> error + rat" where
  "truediv a b = (if b = 0 then Inl ZeroDivisionError else Inr (a / b))"

text \<open>Rounding to the nearest integer, ties to the even one, as \<open>timedelta\<close> rounds
  fractional microseconds.\<close>

definition round_half_even :: "rat \<Rightarrow> int" where
  "round_half_even x =
     (let f = \<lfloor>x\<rfloor>; d = x - of_int f
      in if d < 1 / 2 then f
         else if 1 / 2 < d then f + 1
         else if even f then f else f + 1)"

definition timedelta_min :: int where
  "timedelta_min = - 999999999 * 86400000000"

definition timedelta_max :: int where
  "timedelta_max = 1000000000 * 86400000000 - 1"

text \<open>\<open>timedelta(minutes=m)\<close>.\<close>

definition timedelta_minutes :: "rat \<Rightarrow> error + int" where
  "timedelta_minutes m =
     (let us = round_half_even (m * 60000000)
      in if timedelta_min \<le> us \<and> us \<le> timedelta_max then Inr us else Inl OverflowError)"

text \<open>\<open>datetime.max\<close> is 9999-12-31 23:59:59.999999, day 3652059 of the calendar.\<close>

definition datetime_max :: int where
  "datetime_max = 3652059 * 86400000000 - 1"

text \<open>\<open>datetime(2026, 1, 10, 8, 0)\<close>: day 739626 of the calendar, eight hours in.\<close>

definition datetime_2026_01_10_08_00 :: int where
  "datetime_2026_01_10_08_00 = (739625 * 86400 + 8 * 3600) * 1000000"

text \<open>\<open>t + d\<close> for a datetime \<open>t\<close> and a timedelta \<open>d\<close>.\<close>

definition datetime_add :: "int \<Rightarrow> int \<Rightarrow> error + int" where
  "datetime_add t d =
     (if 0 \<le> t + d \<and> t + d \<le> datetime_max then Inr (t + d) else Inl OverflowError)"

subsection \<open>The grouped ordering\<close>

text \<open>
  \<open>df.sort_values(by=[color, width], ascending=[True, False])\<close>. With more than one
  key pandas sorts with a stable lexicographic sort, a descending key being negated
  rather than the result reversed. \<open>sort_key\<close> is the stable insertion sort of the
  HOL library.
\<close>

definition sort_values :: "row list \<Rightarrow> row list" where
  "sort_values df = sort_key (\<lambda>r. (color r, - width r)) df"

subsection \<open>The loop of calculate\_schedule\<close>

record state =
  start_time :: int
  last_color :: "string option"
  schedule_list :: "block list"

text \<open>Lines 64 to 81: the changeover block, when the colour changes.\<close>

definition changeover_step :: "int \<Rightarrow> state \<Rightarrow> row \<Rightarrow> error + state" where
  "changeover_step setup_time s r =
     (let is_changeover = (last_color s \<noteq> None \<and> Some (color r) \<noteq> last_color s);
          current_setup = (if is_changeover then setup_time else 0)
      in if is_changeover then
           (case timedelta_minutes (of_int current_setup) of
              Inl e \<Rightarrow> Inl e
            | Inr d \<Rightarrow>
                (case datetime_add (start_time s) d of
                   Inl e \<Rightarrow> Inl e
                 | Inr t \<Rightarrow>
                     Inr (s\<lparr>schedule_list := schedule_list s @
                               [\<lparr>label = changeover_label, bcolor = setup_loss,
                                 bstart = start_time s, bend = t\<rparr>],
                            start_time := t\<rparr>)))
         else Inr s)"

text \<open>Lines 83 to 98: the production block.\<close>

definition production_step :: "int \<Rightarrow> state \<Rightarrow> row \<Rightarrow> error + state" where
  "production_step line_speed s r =
     (case truediv (quantity r) (of_int line_speed) of
        Inl e \<Rightarrow> Inl e
      | Inr q \<Rightarrow>
          (let production_minutes = q * 60
           in case timedelta_minutes production_minutes of
                Inl e \<Rightarrow> Inl e
              | Inr d \<Rightarrow>
                  (case datetime_add (start_time s) d of
                     Inl e \<Rightarrow> Inl e
                   | Inr end_time \<Rightarrow>
                       Inr (s\<lparr>schedule_list := schedule_list s @
                                 [\<lparr>label = production_label r, bcolor = color r,
                                   bstart = start_time s, bend = end_time\<rparr>],
                              start_time := end_time,
                              last_color := Some (color r)\<rparr>))))"

definition loop_body :: "int \<Rightarrow> int \<Rightarrow> state \<Rightarrow> row \<Rightarrow> error + state" where
  "loop_body line_speed setup_time s r =
     (case changeover_step setup_time s r of
        Inl e \<Rightarrow> Inl e
      | Inr s1 \<Rightarrow> production_step line_speed s1 r)"

fun iterrows :: "int \<Rightarrow> int \<Rightarrow> state \<Rightarrow> row list \<Rightarrow> error + state" where
  "iterrows line_speed setup_time s [] = Inr s"
| "iterrows line_speed setup_time s (r # rs) =
     (case loop_body line_speed setup_time s r of
        Inl e \<Rightarrow> Inl e
      | Inr s' \<Rightarrow> iterrows line_speed setup_time s' rs)"

definition initial_state :: state where
  "initial_state =
     \<lparr>start_time = datetime_2026_01_10_08_00, last_color = None, schedule_list = []\<rparr>"

definition calculate_schedule :: "int \<Rightarrow> int \<Rightarrow> row list \<Rightarrow> bool \<Rightarrow> error + block list" where
  "calculate_schedule line_speed setup_time df is_optimized =
     (let schedule = (if is_optimized then sort_values df else df)
      in case iterrows line_speed setup_time initial_state schedule of
           Inl e \<Rightarrow> Inl e
         | Inr s \<Rightarrow> Inr (schedule_list s))"

subsection \<open>The metrics of lines 113 to 121\<close>

text \<open>
  \<open>df[df[label] == 'Changeover (\<dots>)'][end].count() * setup_time\<close>. A schedule made
  from an empty list of blocks is a table without columns, and selecting the label
  column of such a table raises \<open>KeyError\<close>.
\<close>

definition changeover_count :: "block list \<Rightarrow> nat" where
  "changeover_count sched = length (filter (\<lambda>b. label b = changeover_label) sched)"

definition changeover_loss :: "int \<Rightarrow> block list \<Rightarrow> error + int" where
  "changeover_loss setup_time sched =
     (if sched = [] then Inl KeyError
      else Inr (int (changeover_count sched) * setup_time))"

text \<open>The expression of line 121, before it is formatted.\<close>

definition efficiency :: "int \<Rightarrow> int \<Rightarrow> error + rat" where
  "efficiency loss_asis time_saved =
     (case truediv (of_int time_saved) (of_int (if 0 < loss_asis then loss_asis else 1)) of
        Inl e \<Rightarrow> Inl e
      | Inr q \<Rightarrow> Inr (q * 100))"

text \<open>The format \<open>.1f\<close>: the number of tenths shown.\<close>

definition format_1f :: "rat \<Rightarrow> int" where
  "format_1f x = round_half_even (x * 10)"

text \<open>
  Lines 107 to 121 of the script: the two schedules, the two losses, the time saved and
  the efficiency figure, in the order the script computes them.
\<close>

record metrics =
  loss_asis :: int
  loss_tobe :: int
  time_saved :: int
  efficiency_pct :: rat

definition simulate :: "int \<Rightarrow> int \<Rightarrow> row list \<Rightarrow> error + metrics" where
  "simulate line_speed setup_time df_raw =
     (case calculate_schedule line_speed setup_time df_raw False of
        Inl e \<Rightarrow> Inl e
      | Inr df_asis \<Rightarrow>
     (case calculate_schedule line_speed setup_time df_raw True of
        Inl e \<Rightarrow> Inl e
      | Inr df_tobe \<Rightarrow>
     (case changeover_loss setup_time df_asis of
        Inl e \<Rightarrow> Inl e
      | Inr la \<Rightarrow>
     (case changeover_loss setup_time df_tobe of
        Inl e \<Rightarrow> Inl e
      | Inr lt \<Rightarrow>
     (case efficiency la (la - lt) of
        Inl e \<Rightarrow> Inl e
      | Inr p \<Rightarrow>
          Inr \<lparr>loss_asis = la, loss_tobe = lt, time_saved = la - lt,
               efficiency_pct = p\<rparr>)))))"

subsection \<open>The sample table of lines 30 to 36\<close>

definition mk_row :: "string \<Rightarrow> string \<Rightarrow> string \<Rightarrow> rat \<Rightarrow> rat \<Rightarrow> row" where
  "mk_row i c col q w =
     \<lparr>order_id = i, customer = c, color = col, quantity = q, width = w\<rparr>"

text \<open>The customer names of the sample are Korean company names, written here as their
  UTF-8 bytes.\<close>

definition customer_101 :: string where
  "customer_101 =
     ''LG'' @
     [CHR 0xEC, CHR 0xA0, CHR 0x84, CHR 0xEC, CHR 0x9E, CHR 0x90]"

definition customer_102 :: string where
  "customer_102 =
     [CHR 0xEC, CHR 0x82, CHR 0xBC, CHR 0xEC, CHR 0x84, CHR 0xB1, CHR 0xEC, CHR 0xA0, CHR 0x84, CHR 0xEC, CHR 0x9E, CHR 0x90]"

definition customer_103 :: string where
  "customer_103 =
     [CHR 0xED, CHR 0x98, CHR 0x84, CHR 0xEB, CHR 0x8C, CHR 0x80, CHR 0xEC, CHR 0xB0, CHR 0xA8]"

definition customer_104 :: string where
  "customer_104 =
     [CHR 0xEA, CHR 0xB8, CHR 0xB0, CHR 0xEC, CHR 0x95, CHR 0x84]"

definition customer_105 :: string where
  "customer_105 =
     [CHR 0xED, CHR 0x8F, CHR 0xAC, CHR 0xEC, CHR 0x8A, CHR 0xA4, CHR 0xEC, CHR 0xBD, CHR 0x94] @
     ''E&C''"

definition customer_106 :: string where
  "customer_106 =
     ''LG'' @
     [CHR 0xED, CHR 0x95, CHR 0x98, CHR 0xEC, CHR 0x9A, CHR 0xB0, CHR 0xEC, CHR 0x8B, CHR 0x9C, CHR 0xEC, CHR 0x8A, CHR 0xA4]"

definition customer_107 :: string where
  "customer_107 =
     [CHR 0xEC, CHR 0x82, CHR 0xBC, CHR 0xEC, CHR 0x84, CHR 0xB1, CHR 0xEB, CHR 0xAC, CHR 0xBC, CHR 0xEC, CHR 0x82, CHR 0xB0]"

definition customer_108 :: string where
  "customer_108 =
     ''KG'' @
     [CHR 0xEB, CHR 0xAA, CHR 0xA8, CHR 0xEB, CHR 0xB9, CHR 0x8C, CHR 0xEB, CHR 0xA6, CHR 0xAC, CHR 0xED, CHR 0x8B, CHR 0xB0]"

definition default_data :: "row list" where
  "default_data =
     [mk_row ''ORD-101'' customer_101 ''White'' 100 1200,
      mk_row ''ORD-102'' customer_102 ''Blue'' 50 1000,
      mk_row ''ORD-103'' customer_103 ''White'' 80 1200,
      mk_row ''ORD-104'' customer_104 ''Red'' 40 900,
      mk_row ''ORD-105'' customer_105 ''Blue'' 60 1000,
      mk_row ''ORD-106'' customer_106 ''White'' 120 1200,
      mk_row ''ORD-107'' customer_107 ''Red'' 30 900,
      mk_row ''ORD-108'' customer_108 ''Blue'' 50 1000]"

subsection \<open>The schedule as a function of the rows\<close>

text \<open>
  What the loop appends, written without the state and without the errors: the blocks
  emitted for the rows \<open>rs\<close> from the time \<open>t\<close> on, when the colour of the
  last production block is \<open>lc\<close>. The loop is shown below to return exactly these
  blocks whenever it returns; every property of a returned schedule is proved on them.
\<close>

definition changeover_block :: "int \<Rightarrow> int \<Rightarrow> block" where
  "changeover_block t1 t2 =
     \<lparr>label = changeover_label, bcolor = setup_loss, bstart = t1, bend = t2\<rparr>"

definition production_block :: "row \<Rightarrow> int \<Rightarrow> int \<Rightarrow> block" where
  "production_block r t1 t2 =
     \<lparr>label = production_label r, bcolor = color r, bstart = t1, bend = t2\<rparr>"

definition changed :: "string option \<Rightarrow> row \<Rightarrow> bool" where
  "changed lc r = (lc \<noteq> None \<and> lc \<noteq> Some (color r))"

definition setup_us :: "int \<Rightarrow> string option \<Rightarrow> row \<Rightarrow> int" where
  "setup_us st lc r = (if changed lc r then st * 60000000 else 0)"

definition production_us :: "int \<Rightarrow> row \<Rightarrow> int" where
  "production_us ls r = round_half_even (quantity r / of_int ls * 60 * 60000000)"

fun blocks_of :: "int \<Rightarrow> int \<Rightarrow> int \<Rightarrow> string option \<Rightarrow> row list \<Rightarrow> block list" where
  "blocks_of ls st t lc [] = []"
| "blocks_of ls st t lc (r # rs) =
     (if changed lc r then [changeover_block t (t + setup_us st lc r)] else []) @
     production_block r (t + setup_us st lc r) (t + setup_us st lc r + production_us ls r) #
     blocks_of ls st (t + setup_us st lc r + production_us ls r) (Some (color r)) rs"

definition policy :: "bool \<Rightarrow> row list \<Rightarrow> row list" where
  "policy is_optimized df = (if is_optimized then sort_values df else df)"

subsection \<open>Reading a schedule\<close>

text \<open>
  A changeover block is a block as lines 74 to 80 build it: it has the changeover label
  and the display colour \<open>Setup (Loss)\<close>. Every other block is a production
  block. (A production block can carry the changeover label, when an order is numbered
  \<open>Changeover\<close> and its colour is the two Hangul syllables; its display colour
  is then that colour, so the two kinds never mix.)

  \<open>changeover_rule prev sched\<close> reads a schedule from the front, \<open>prev\<close>
  being the colour of the production block before it, if any: a changeover block is
  followed at once by a production block whose colour differs from \<open>prev\<close>
  (and there is a \<open>prev\<close>); a production block that no changeover block
  precedes has the colour \<open>prev\<close>, or is the first one.
\<close>

definition is_changeover :: "block \<Rightarrow> bool" where
  "is_changeover b = (label b = changeover_label \<and> bcolor b = setup_loss)"

definition production_blocks :: "block list \<Rightarrow> block list" where
  "production_blocks sched = filter (\<lambda>b. \<not> is_changeover b) sched"

fun changeover_rule :: "string option \<Rightarrow> block list \<Rightarrow> bool" where
  "changeover_rule prev [] = True"
| "changeover_rule prev [b] = (\<not> is_changeover b \<and> (prev = None \<or> prev = Some (bcolor b)))"
| "changeover_rule prev (b # p # bs) =
     (if is_changeover b
      then \<not> is_changeover p \<and> prev \<noteq> None \<and> prev \<noteq> Some (bcolor p) \<and>
           changeover_rule (Some (bcolor p)) bs
      else (prev = None \<or> prev = Some (bcolor b)) \<and>
           changeover_rule (Some (bcolor b)) (p # bs))"

definition durations :: "block list \<Rightarrow> int list" where
  "durations sched = map (\<lambda>b. bend b - bstart b) sched"




definition well_timed :: "int \<Rightarrow> block \<Rightarrow> bool" where
  "well_timed setup_time b =
     (bstart b \<le> bend b \<and>
      (is_changeover b \<longrightarrow> bend b - bstart b = setup_time * 60000000))"

subsection \<open>Colour changes of a sequence of orders\<close>



subsection \<open>Sample inputs\<close>

definition two_colors :: "row list" where
  "two_colors =
     [mk_row ''ORD-1'' ''A'' ''Red'' 10 1000,
      mk_row ''ORD-2'' ''B'' ''Blue'' 20 900]"

definition two_colors_schedule :: "block list" where
  "two_colors_schedule =
     [\<lparr>label = ''ORD-1 (Red)'', bcolor = ''Red'',
       bstart = 63903628800000000, bend = 63903630600000000\<rparr>,
      \<lparr>label = changeover_label, bcolor = setup_loss,
       bstart = 63903630600000000, bend = 63903634200000000\<rparr>,
      \<lparr>label = ''ORD-2 (Blue)'', bcolor = ''Blue'',
       bstart = 63903634200000000, bend = 63903637800000000\<rparr>]"










section \<open>The loop returns the blocks of its rows\<close>

lemma round_half_even_of_int: "round_half_even (of_int n) = n"
  by (simp add: round_half_even_def)

lemma timedelta_minutes_of_int:
  "timedelta_minutes (of_int n) = Inr d \<Longrightarrow> d = n * 60000000"
proof -
  have "(of_int n :: rat) * 60000000 = of_int (n * 60000000)" by simp
  then have "round_half_even (of_int n * 60000000) = n * 60000000"
    by (simp only: round_half_even_of_int)
  then show "timedelta_minutes (of_int n) = Inr d \<Longrightarrow> d = n * 60000000"
    by (simp add: timedelta_minutes_def Let_def split: if_splits)
qed

lemma datetime_add_Inr: "datetime_add t d = Inr t' \<Longrightarrow> t' = t + d"
  by (simp add: datetime_add_def split: if_splits)

lemma changeover_step_Inr:
  assumes "changeover_step st s r = Inr s1"
  shows "s1 = s\<lparr>schedule_list := schedule_list s @
                 (if changed (last_color s) r
                  then [changeover_block (start_time s) (start_time s + setup_us st (last_color s) r)]
                  else []),
               start_time := start_time s + setup_us st (last_color s) r\<rparr>"
proof (cases "changed (last_color s) r")
  case True
  then have c: "last_color s \<noteq> None \<and> Some (color r) \<noteq> last_color s"
    by (auto simp: changed_def)
  from assms c obtain d t where d: "timedelta_minutes (of_int st) = Inr d"
    and t: "datetime_add (start_time s) d = Inr t"
    and s1: "s1 = s\<lparr>schedule_list := schedule_list s @
                 [\<lparr>label = changeover_label, bcolor = setup_loss,
                   bstart = start_time s, bend = t\<rparr>], start_time := t\<rparr>"
    by (auto simp: changeover_step_def split: sum.splits)
  from d have "d = st * 60000000" by (rule timedelta_minutes_of_int)
  with t have "t = start_time s + st * 60000000" by (simp add: datetime_add_Inr)
  with s1 True show ?thesis by (simp add: setup_us_def changeover_block_def)
next
  case False
  then have "\<not> (last_color s \<noteq> None \<and> Some (color r) \<noteq> last_color s)"
    by (auto simp: changed_def)
  with assms have "s1 = s" by (auto simp: changeover_step_def Let_def)
  with False show ?thesis by (simp add: setup_us_def)
qed

lemma production_step_Inr:
  assumes "production_step ls s r = Inr s2"
  shows "s2 = s\<lparr>schedule_list := schedule_list s @
                 [production_block r (start_time s) (start_time s + production_us ls r)],
               start_time := start_time s + production_us ls r,
               last_color := Some (color r)\<rparr> \<and> ls \<noteq> 0"
proof -
  from assms obtain q d e where q: "truediv (quantity r) (of_int ls) = Inr q"
    and d: "timedelta_minutes (q * 60) = Inr d"
    and e: "datetime_add (start_time s) d = Inr e"
    and s2: "s2 = s\<lparr>schedule_list := schedule_list s @
                 [\<lparr>label = production_label r, bcolor = color r,
                   bstart = start_time s, bend = e\<rparr>],
               start_time := e, last_color := Some (color r)\<rparr>"
    by (auto simp: production_step_def Let_def split: sum.splits)
  from q have ls: "ls \<noteq> 0" and q': "q = quantity r / of_int ls"
    by (auto simp: truediv_def split: if_splits)
  from d q' have "d = production_us ls r"
    by (auto simp: timedelta_minutes_def production_us_def Let_def split: if_splits)
  with e have "e = start_time s + production_us ls r" by (simp add: datetime_add_Inr)
  with s2 ls show ?thesis by (simp add: production_block_def)
qed

lemma loop_body_Inr:
  assumes "loop_body ls st s r = Inr s'"
  shows "schedule_list s' = schedule_list s @ blocks_of ls st (start_time s) (last_color s) [r]"
    and "start_time s' = start_time s + setup_us st (last_color s) r + production_us ls r"
    and "last_color s' = Some (color r)"
    and "ls \<noteq> 0"
proof -
  from assms obtain s1 where s1: "changeover_step st s r = Inr s1"
    and s': "production_step ls s1 r = Inr s'"
    by (auto simp: loop_body_def split: sum.splits)
  note a = changeover_step_Inr [OF s1] and b = production_step_Inr [OF s']
  from b show "ls \<noteq> 0" by simp
  from b show "last_color s' = Some (color r)" by simp
  have t1: "start_time s1 = start_time s + setup_us st (last_color s) r"
    by (subst a) simp
  have l1: "schedule_list s1 = schedule_list s @
                 (if changed (last_color s) r
                  then [changeover_block (start_time s) (start_time s + setup_us st (last_color s) r)]
                  else [])"
    by (subst a) simp
  have "start_time s' = start_time s1 + production_us ls r"
    using b by simp
  with t1 show "start_time s' = start_time s + setup_us st (last_color s) r + production_us ls r"
    by simp
  have "schedule_list s' = schedule_list s1 @
                 [production_block r (start_time s1) (start_time s1 + production_us ls r)]"
    using b by simp
  with l1 t1 show "schedule_list s' = schedule_list s @ blocks_of ls st (start_time s) (last_color s) [r]"
    by simp
qed

lemma blocks_of_Cons:
  "blocks_of ls st t lc (r # rs) =
     blocks_of ls st t lc [r] @
     blocks_of ls st (t + setup_us st lc r + production_us ls r) (Some (color r)) rs"
  by simp

lemma iterrows_Inr:
  "iterrows ls st s rs = Inr s' \<Longrightarrow>
     schedule_list s' = schedule_list s @ blocks_of ls st (start_time s) (last_color s) rs"
proof (induction rs arbitrary: s)
  case Nil
  then show ?case by simp
next
  case (Cons r rs)
  from Cons.prems obtain s1 where s1: "loop_body ls st s r = Inr s1"
    and rest: "iterrows ls st s1 rs = Inr s'"
    by (auto split: sum.splits)
  note b = loop_body_Inr [OF s1]
  from Cons.IH [OF rest] b(1,2,3)
  have "schedule_list s' =
          (schedule_list s @ blocks_of ls st (start_time s) (last_color s) [r]) @
          blocks_of ls st (start_time s + setup_us st (last_color s) r + production_us ls r)
            (Some (color r)) rs"
    by simp
  then show ?case by (simp only: blocks_of_Cons [of ls st _ _ r rs] append_assoc)
qed

lemma calculate_schedule_Inr:
  assumes "calculate_schedule ls st df opt = Inr sched"
  shows "sched = blocks_of ls st datetime_2026_01_10_08_00 None (policy opt df)"
proof -
  from assms obtain s where
    "iterrows ls st initial_state (policy opt df) = Inr s" and "sched = schedule_list s"
    by (auto simp: calculate_schedule_def policy_def Let_def split: sum.splits if_splits)
  with iterrows_Inr [of ls st initial_state "policy opt df" s] show ?thesis
    by (simp add: initial_state_def)
qed

section \<open>Properties of the blocks\<close>

lemma is_changeover_changeover_block [simp]: "is_changeover (changeover_block t1 t2)"
  by (simp add: is_changeover_def changeover_block_def)

lemma production_label_setup_loss:
  assumes "color r = setup_loss"
  shows "production_label r \<noteq> changeover_label"
proof
  assume "production_label r = changeover_label"
  then have "rev (production_label r) = rev changeover_label" by simp
  with assms show False
    by (simp add: production_label_def changeover_label_def setup_loss_def)
qed

lemma not_is_changeover_production_block [simp]:
  "\<not> is_changeover (production_block r t1 t2)"
  using production_label_setup_loss [of r]
  by (auto simp: is_changeover_def production_block_def)

lemma production_block_fields:
  "label (production_block r a b) = production_label r"
  "bcolor (production_block r a b) = color r"
  "bstart (production_block r a b) = a"
  "bend (production_block r a b) = b"
  by (simp_all add: production_block_def)

lemma blocks_of_contiguous:
  "successively (\<lambda>a b. bend a = bstart b) (blocks_of ls st t lc rs) \<and>
   (rs \<noteq> [] \<longrightarrow> bstart (hd (blocks_of ls st t lc rs)) = t)"
proof (induction rs arbitrary: t lc)
  case Nil
  then show ?case by simp
next
  case (Cons r rs)
  let ?t2 = "t + setup_us st lc r + production_us ls r"
  let ?rest = "blocks_of ls st ?t2 (Some (color r)) rs"
  from Cons.IH [of ?t2 "Some (color r)"]
  have s: "successively (\<lambda>a b. bend a = bstart b) ?rest"
    and h: "rs \<noteq> [] \<Longrightarrow> bstart (hd ?rest) = ?t2"
    by simp_all
  have rne: "rs \<noteq> [] \<Longrightarrow> ?rest \<noteq> []" by (cases rs) simp_all
  have p: "successively (\<lambda>a b. bend a = bstart b)
             (production_block r (t + setup_us st lc r) ?t2 # ?rest)"
  proof (cases rs)
    case Nil
    then show ?thesis by simp
  next
    case (Cons a as)
    with h rne s show ?thesis
      by (cases ?rest) (simp_all add: production_block_def)
  qed
  show ?case
  proof (cases "changed lc r")
    case True
    with p show ?thesis by (simp add: changeover_block_def production_block_def)
  next
    case False
    with p show ?thesis by (simp add: production_block_def setup_us_def)
  qed
qed

lemma blocks_of_changeover_rule:
  "changeover_rule lc (blocks_of ls st t lc rs)"
proof (induction rs arbitrary: t lc)
  case Nil
  then show ?case by simp
next
  case (Cons r rs)
  let ?t2 = "t + setup_us st lc r + production_us ls r"
  let ?rest = "blocks_of ls st ?t2 (Some (color r)) rs"
  have rest: "changeover_rule (Some (color r)) ?rest" by (rule Cons.IH)
  have c: "bcolor (production_block r a b) = color r" for a b
    by (simp add: production_block_def)
  have p: "changeover_rule (Some (color r)) (production_block r a b # ?rest)" for a b
    using rest by (cases ?rest) (simp_all add: c)
  show ?case
  proof (cases "changed lc r")
    case True
    then have "lc \<noteq> None \<and> lc \<noteq> Some (color r)" by (simp add: changed_def)
    with True rest show ?thesis by (simp add: c)
  next
    case False
    then have "lc = None \<or> lc = Some (color r)" by (auto simp: changed_def)
    with False rest show ?thesis by (cases ?rest) (auto simp: c)
  qed
qed


lemma blocks_of_production_colors:
  "map bcolor (production_blocks (blocks_of ls st t lc rs)) = map color rs"
  by (induction rs arbitrary: t lc) (simp_all add: production_blocks_def production_block_fields)

text \<open>The rule does refuse schedules: one that starts with a changeover block, one
  that changes colour without a changeover block, and one with a changeover block between
  two blocks of one colour.\<close>

lemma changeover_rule_rejects:
  "\<not> changeover_rule None (changeover_block t1 t2 # production_block r t2 t3 # bs)"
  "color r \<noteq> color r' \<Longrightarrow>
     \<not> changeover_rule None [production_block r t1 t2, production_block r' t2 t3]"
  "\<not> changeover_rule (Some (color r)) [changeover_block t1 t2, production_block r t2 t3]"
  by (simp_all add: production_block_fields)

section \<open>Rounding to microseconds\<close>


lemma round_half_even_nonneg: "0 \<le> x \<Longrightarrow> 0 \<le> round_half_even x"
proof -
  assume "0 \<le> x"
  then have "0 \<le> \<lfloor>x\<rfloor>" by simp
  then show ?thesis by (auto simp: round_half_even_def Let_def)
qed




lemma production_us_nonneg:
  "0 \<le> quantity r \<Longrightarrow> 0 < ls \<Longrightarrow> 0 \<le> production_us ls r"
  unfolding production_us_def by (rule round_half_even_nonneg) simp



lemma blocks_of_well_timed:
  assumes "0 < ls" and "0 \<le> st"
  shows "list_all (\<lambda>r. 0 \<le> quantity r) rs \<Longrightarrow>
         list_all (well_timed st) (blocks_of ls st t lc rs)"
proof (induction rs arbitrary: t lc)
  case Nil
  then show ?case by simp
next
  case (Cons r rs)
  from Cons.prems have q: "0 \<le> quantity r" and rest: "list_all (\<lambda>r. 0 \<le> quantity r) rs"
    by simp_all
  have c: "changed lc r \<Longrightarrow> well_timed st (changeover_block t (t + setup_us st lc r))"
    using assms(2) by (simp add: well_timed_def changeover_block_def setup_us_def)
  have p: "well_timed st (production_block r a (a + production_us ls r))" for a
    using production_us_nonneg [OF q assms(1)]
    by (simp add: well_timed_def production_block_fields)
  from c p Cons.IH [OF rest] show ?case by simp
qed

section \<open>The grouped ordering is a stable sort\<close>

lemma sort_values_set: "set (sort_values df) = set df"
  by (simp add: sort_values_def)








section \<open>Counting changeovers\<close>










section \<open>When the builder fails\<close>

lemma calculate_schedule_policy:
  "calculate_schedule ls st df opt =
     (case iterrows ls st initial_state (policy opt df) of
        Inl e \<Rightarrow> Inl e | Inr s \<Rightarrow> Inr (schedule_list s))"
  by (simp add: calculate_schedule_def policy_def)

lemma calculate_schedule_Nil: "calculate_schedule ls st [] opt = Inr []"
  by (simp add: calculate_schedule_policy policy_def sort_values_def initial_state_def)











section \<open>The sample inputs, evaluated\<close>

lemma two_colors_run:
  "calculate_schedule 20 60 two_colors False = Inr two_colors_schedule"
  by code_simp






section \<open>The claims\<close>

subsection \<open>C1: the sample table\<close>

text \<open>
  Claim C1. For the sample table of eight orders, with a line speed of 20 tons per hour
  and a changeover of 60 minutes: the schedule in submission order has exactly 7
  changeover blocks, 420 minutes in all (both as line 113 computes the loss and as the
  sum of the blocks' own durations, in microseconds); the grouped schedule has the
  colour runs Blue, Red, White and exactly 2 changeover blocks, 120 minutes; the time
  saved is 300 minutes; the efficiency figure is 300 / 420 * 100 = 500 / 7, shown with
  one decimal as 71.4.
\<close>

theorem default_data_comparison:
  "simulate 20 60 default_data =
     Inr \<lparr>loss_asis = 420, loss_tobe = 120, time_saved = 300, efficiency_pct = 500 / 7\<rparr> \<and>
   map_sum id changeover_count (calculate_schedule 20 60 default_data False) = Inr 7 \<and>
   map_sum id changeover_count (calculate_schedule 20 60 default_data True) = Inr 2 \<and>
   map_sum id (sum_list \<circ> durations \<circ> filter is_changeover)
     (calculate_schedule 20 60 default_data False) = Inr (420 * 60000000) \<and>
   map_sum id (sum_list \<circ> durations \<circ> filter is_changeover)
     (calculate_schedule 20 60 default_data True) = Inr (120 * 60000000) \<and>
   map_sum id (map bcolor) (calculate_schedule 20 60 default_data True) =
     Inr [''Blue'', ''Blue'', ''Blue'', setup_loss, ''Red'', ''Red'', setup_loss,
          ''White'', ''White'', ''White''] \<and>
   format_1f (500 / 7) = 714"
proof -
  have a: "simulate 20 60 default_data =
     Inr \<lparr>loss_asis = 420, loss_tobe = 120, time_saved = 300, efficiency_pct = 500 / 7\<rparr>"
    by code_simp
  have b: "map_sum id changeover_count (calculate_schedule 20 60 default_data False) = Inr 7"
    by code_simp
  have c: "map_sum id changeover_count (calculate_schedule 20 60 default_data True) = Inr 2"
    by code_simp
  have d: "map_sum id (sum_list \<circ> durations \<circ> filter is_changeover)
     (calculate_schedule 20 60 default_data False) = Inr (420 * 60000000)"
    by code_simp
  have e: "map_sum id (sum_list \<circ> durations \<circ> filter is_changeover)
     (calculate_schedule 20 60 default_data True) = Inr (120 * 60000000)"
    by code_simp
  have f: "map_sum id (map bcolor) (calculate_schedule 20 60 default_data True) =
     Inr [''Blue'', ''Blue'', ''Blue'', setup_loss, ''Red'', ''Red'', setup_loss,
          ''White'', ''White'', ''White'']"
    by code_simp
  have g: "format_1f (500 / 7) = 714" by code_simp
  from a b c d e f g show ?thesis by (intro conjI)
qed

subsection \<open>C2: contiguity\<close>

text \<open>
  Claim C2. Whatever the orders, the parameters and the ordering policy, in a schedule
  the builder returns each block ends exactly when the next one starts.
\<close>

theorem schedule_contiguous:
  assumes "calculate_schedule line_speed setup_time df is_optimized = Inr sched"
  shows "\<forall>i. Suc i < length sched \<longrightarrow> bend (sched ! i) = bstart (sched ! Suc i)"
proof -
  from calculate_schedule_Inr [OF assms] blocks_of_contiguous
  have "successively (\<lambda>a b. bend a = bstart b) sched" by simp
  then show ?thesis by (simp only: successively_conv_nth)
qed

theorem schedule_contiguous_witness:
  "calculate_schedule 20 60 two_colors False = Inr two_colors_schedule \<and>
   length two_colors_schedule = 3 \<and>
   bend (two_colors_schedule ! 0) = bstart (two_colors_schedule ! 1) \<and>
   bend (two_colors_schedule ! 1) = bstart (two_colors_schedule ! 2)"
proof -
  note c = schedule_contiguous [OF two_colors_run]
  have l: "length two_colors_schedule = 3" by (simp add: two_colors_schedule_def)
  from c l have "bend (two_colors_schedule ! 0) = bstart (two_colors_schedule ! Suc 0)"
    by simp
  moreover from c l have "bend (two_colors_schedule ! 1) = bstart (two_colors_schedule ! Suc 1)"
    by simp
  ultimately show ?thesis using two_colors_run l by (simp add: numeral_2_eq_2)
qed

subsection \<open>C3: where changeover blocks stand\<close>

text \<open>
  Claim C3. In a returned schedule the production blocks carry the colours of the
  orders, in the order of the policy, and a changeover block stands immediately before a
  production block exactly if the production block before it has another colour; the
  first production block has no changeover block before it.
\<close>

theorem changeover_iff_color_differs:
  assumes "calculate_schedule line_speed setup_time df is_optimized = Inr sched"
  shows "changeover_rule None sched \<and>
         map bcolor (production_blocks sched) = map color (policy is_optimized df)"
  using calculate_schedule_Inr [OF assms]
  by (simp add: blocks_of_changeover_rule blocks_of_production_colors)

theorem changeover_iff_color_differs_witness:
  "calculate_schedule 20 60 two_colors False = Inr two_colors_schedule \<and>
   changeover_rule None two_colors_schedule \<and>
   map bcolor (production_blocks two_colors_schedule) = [''Red'', ''Blue'']"
proof -
  have "map color (policy False two_colors) = [''Red'', ''Blue'']"
    by (simp add: policy_def two_colors_def mk_row_def)
  with changeover_iff_color_differs [OF two_colors_run] two_colors_run
  show ?thesis by simp
qed

subsection \<open>C4: the duration of a production block\<close>




subsection \<open>C5: the grouped ordering\<close>



subsection \<open>C6: invalid parameters\<close>




subsection \<open>C7: no orders\<close>

text \<open>
  Claim C7. For a table of zero orders the builder returns the empty schedule under
  both policies, as the claim says. The metrics are then not reported as zero: line 113
  selects the label column of a schedule which, being built from no block, has no
  column, and the program stops with a \<open>KeyError\<close>.
\<close>

theorem empty_input_key_error:
  "calculate_schedule line_speed setup_time [] False = Inr [] \<and>
   calculate_schedule line_speed setup_time [] True = Inr [] \<and>
   simulate line_speed setup_time [] = Inl KeyError"
  by (simp add: calculate_schedule_Nil simulate_def changeover_loss_def)

subsection \<open>C8: the guard of the efficiency figure\<close>



subsection \<open>C9: the duration of a block\<close>

text \<open>
  Claim C9 says that every block ends strictly after it starts. With a changeover time
  of 0, which is allowed, the changeover block between two colours has duration 0.
\<close>

theorem block_duration_counterexample:
  "map_sum id durations (calculate_schedule 20 0 two_colors False) =
     Inr [1800000000, 0, 3600000000] \<and>
   map_sum id (map is_changeover) (calculate_schedule 20 0 two_colors False) =
     Inr [False, True, False]"
proof -
  have a: "map_sum id durations (calculate_schedule 20 0 two_colors False) =
     Inr [1800000000, 0, 3600000000]"
    by code_simp
  have b: "map_sum id (map is_changeover) (calculate_schedule 20 0 two_colors False) =
     Inr [False, True, False]"
    by code_simp
  from a b show ?thesis by (intro conjI)
qed

text \<open>
  Claim C9, as the code has it. With a positive line speed, a changeover time that is
  not negative and quantities that are not negative, no block of a returned schedule
  ends before it starts, and a changeover block lasts exactly the changeover time (so it
  is longer than zero exactly when the changeover time is positive).
\<close>

theorem block_never_ends_early:
  assumes "calculate_schedule line_speed setup_time df is_optimized = Inr sched"
    and "0 < line_speed" and "0 \<le> setup_time"
    and "list_all (\<lambda>r. 0 \<le> quantity r) df"
  shows "list_all (well_timed setup_time) sched"
proof -
  from assms(4) have "list_all (\<lambda>r. 0 \<le> quantity r) (policy is_optimized df)"
    by (simp add: policy_def list_all_iff sort_values_set)
  from blocks_of_well_timed [OF assms(2,3) this] calculate_schedule_Inr [OF assms(1)]
  show ?thesis by simp
qed

theorem block_never_ends_early_witness:
  "calculate_schedule 20 60 two_colors False = Inr two_colors_schedule \<and>
   (0::int) < 20 \<and> (0::int) \<le> 60 \<and>
   list_all (\<lambda>r. 0 \<le> quantity r) two_colors \<and>
   list_all (well_timed 60) two_colors_schedule \<and>
   durations two_colors_schedule = [1800000000, 3600000000, 3600000000]"
proof -
  have q: "list_all (\<lambda>r. 0 \<le> quantity r) two_colors"
    by (simp add: two_colors_def mk_row_def)
  have "(0::int) < 20" and "(0::int) \<le> 60" by simp_all
  from block_never_ends_early [OF two_colors_run this q]
  have "list_all (well_timed 60) two_colors_schedule" .
  moreover have "durations two_colors_schedule = [1800000000, 3600000000, 3600000000]"
    by (simp add: durations_def two_colors_schedule_def)
  ultimately show ?thesis using two_colors_run q by simp
qed

subsection \<open>C10: grouping never costs changeover time\<close>



end
